theory Spec2Isabelle
  imports Main
begin

section \<open>The status page form: data\<close>

text \<open>
  The component \<^verbatim>\<open>StatusPageForm\<close> of
  \<^verbatim>\<open>apps/web/src/components/forms/status-page-form.tsx\<close> is a React function
  component. Its event handlers and effects are modelled as functions on an explicit
  state: the values the form holds, the error of the slug field, whether a submission
  has been handled, the debounced slug, and the trace of the calls the component makes on its collaborators (remote mutations,
  router, toasts, console, fetch). The collaborators themselves (the tRPC client, the
  upload endpoint, \<^verbatim>\<open>slugify\<close>, the zod resolver, the search-params hook) are not
  part of the file; what they answer is a parameter of the model, the record \<open>Env\<close>.
\<close>

datatype error = Rejected

text \<open>
  Modelled from the spec: the type \<^verbatim>\<open>Schema = z.infer<typeof insertPageSchemaWithMonitors>\<close>
  is declared in the database package, which is not among the sources. The fields are
  those the form lists in its \<^verbatim>\<open>defaultValues\<close> (the page draft of the spec's data
  model). \<^verbatim>\<open>title\<close> and \<^verbatim>\<open>slug\<close> are plain strings, since the component passes them
  to \<^verbatim>\<open>slugify\<close> and calls \<^verbatim>\<open>toLowerCase\<close> on them without a guard; every other
  field may be absent, as the guards \<^verbatim>\<open>||\<close>, \<^verbatim>\<open>??\<close> and \<^verbatim>\<open>?.\<close> of the component allow.
  The field \<^verbatim>\<open>id\<close> is written \<open>id'\<close>.
\<close>

record Schema =
  title :: string
  slug :: string
  description :: "string option"
  workspaceId :: "int option"
  id' :: "int option"
  monitors :: "int list option"
  customDomain :: "string option"
  workspaceSlug :: "string option"
  icon :: "string option"

text \<open>An element of \<^verbatim>\<open>allMonitors\<close>: the component reads \<^verbatim>\<open>id\<close>, \<^verbatim>\<open>name\<close> and \<^verbatim>\<open>url\<close>.\<close>

record Monitor =
  monitor_id :: int
  monitor_name :: string
  monitor_url :: string

text \<open>The props of the component (\<^verbatim>\<open>interface Props\<close>); an optional prop is an option.\<close>

record Props =
  defaultValues :: "Schema option"
  props_workspaceSlug :: string
  allMonitors :: "Monitor list option"
  checkAllMonitors :: "bool option"
  nextUrl :: "string option"

text \<open>A selected file (only its name is read) and the body of the upload response.\<close>

record File =
  file_name :: string

record PutBlobResult =
  blob_url :: string

text \<open>
  What \<^verbatim>\<open>fetch\<close> resolves to: a response, of which the component only calls
  \<^verbatim>\<open>json()\<close>; that call rejects or yields the blob.
\<close>

type_synonym Response = "error + PutBlobResult"

text \<open>
  The collaborators. A promise that rejects is \<open>Inl\<close>. \<^verbatim>\<open>createPage\<close> resolves to
  the created page or to nothing (the component reads \<^verbatim>\<open>page?.id\<close>). The zod resolver
  answers \<open>Inr\<close> the parsed values of a valid draft, and for an invalid draft \<open>Inl\<close>
  the message it has for the slug field, if the slug is among the invalid fields.

  \<^verbatim>\<open>String.prototype.toLowerCase\<close> belongs to the runtime and lowers every cased
  letter of Unicode. It is a parameter as well: what is proved below holds for every
  function in its place, so for the real one, whatever letters the slugs hold.
\<close>

record Env =
  getSlugUniqueness :: "string \<Rightarrow> error + bool"
  updatePage :: "Schema \<Rightarrow> error + unit"
  createPage :: "Schema \<Rightarrow> error + Schema option"
  slugify :: "string \<Rightarrow> string"
  toLowerCase :: "string \<Rightarrow> string"
  updateSearchParams :: "int option \<Rightarrow> string"
  resolver :: "Schema \<Rightarrow> string option + Schema"
  fetch :: "string \<Rightarrow> File \<Rightarrow> error + Response"

text \<open>The calls the component makes, in the order it makes them.\<close>

datatype effect =
    PreventDefault
  | UpdatePage Schema
  | CreatePage Schema
  | RouterReplace string
  | RouterPush string
  | RouterRefresh
  | Toast string
  | ConsoleLogFile File
  | ConsoleLogString string
  | Fetch string File
  | UnhandledRejection error

text \<open>
  The state of the mounted component. \<open>isSubmitted\<close> is the flag of the form library
  that a submission has been handled; from then on the library validates a field again
  when it changes.
\<close>

record State =
  form :: Schema
  slugError :: "string option"
  isSubmitted :: bool
  debouncedSlug :: string
  trace :: "effect list"

section \<open>JavaScript operators\<close>

text \<open>\<^verbatim>\<open>x || d\<close> on an optional string: the empty string is falsy.\<close>

definition orString :: "string option \<Rightarrow> string \<Rightarrow> string" where
  "orString x d = (case x of None \<Rightarrow> d | Some v \<Rightarrow> if v = [] then d else v)"

text \<open>\<^verbatim>\<open>x || d\<close> on an optional number: zero is falsy.\<close>

definition orNumber :: "int option \<Rightarrow> int \<Rightarrow> int" where
  "orNumber x d = (case x of None \<Rightarrow> d | Some v \<Rightarrow> if v = 0 then d else v)"

text \<open>The truth value of an optional string, as \<^verbatim>\<open>if (x)\<close> and \<^verbatim>\<open>!x\<close> read it.\<close>

definition truthy :: "string option \<Rightarrow> bool" where
  "truthy x = (case x of None \<Rightarrow> False | Some v \<Rightarrow> v \<noteq> [])"

section \<open>The form at mount\<close>

text \<open>The \<^verbatim>\<open>defaultValues\<close> handed to \<^verbatim>\<open>useForm\<close> (lines 62 to 75).\<close>

definition useFormDefaults :: "Props \<Rightarrow> Schema" where
  "useFormDefaults p =
     \<lparr> title = orString (map_option title (defaultValues p)) [],
       slug = orString (map_option slug (defaultValues p)) [],
       description = Some (orString (Option.bind (defaultValues p) description) []),
       workspaceId = Some (orNumber (Option.bind (defaultValues p) workspaceId) 0),
       id' = Some (orNumber (Option.bind (defaultValues p) id') 0),
       monitors = Some
         (case (checkAllMonitors p, allMonitors p) of
            (Some True, Some ms) \<Rightarrow> map monitor_id ms
          | _ \<Rightarrow> (case Option.bind (defaultValues p) monitors of None \<Rightarrow> [] | Some xs \<Rightarrow> xs)),
       customDomain = Some (orString (Option.bind (defaultValues p) customDomain) []),
       workspaceSlug = Some [],
       icon = Some (orString (Option.bind (defaultValues p) icon) []) \<rparr>"

section \<open>Effects and handlers\<close>

definition emit :: "effect list \<Rightarrow> State \<Rightarrow> State" where
  "emit es s = s\<lparr>trace := trace s @ es\<rparr>"

text \<open>
  \<^verbatim>\<open>checkUniqueSlug\<close> (lines 86 to 94): the remote is asked about the debounced slug;
  the answer is true when the remote says so or when the debounced slug, lowered, is the
  lowered slug of \<^verbatim>\<open>defaultValues\<close> (\<^verbatim>\<open>undefined\<close>, which no string equals, when there
  are no default values).
\<close>

definition checkUniqueSlug :: "Env \<Rightarrow> Props \<Rightarrow> State \<Rightarrow> error + bool" where
  "checkUniqueSlug env p s =
     (case getSlugUniqueness env (debouncedSlug s) of
        Inl e \<Rightarrow> Inl e
      | Inr isUnique \<Rightarrow>
          Inr (isUnique \<or>
               Some (toLowerCase env (debouncedSlug s)) =
                 map_option (\<lambda>dv. toLowerCase env (slug dv)) (defaultValues p)))"

text \<open>
  \<^verbatim>\<open>watchSlugChanges\<close> (lines 97 to 106), the body of the effect that depends on
  \<^verbatim>\<open>checkUniqueSlug\<close>. Its promise is dropped (\<^verbatim>\<open>void\<close>), so a rejection is unhandled.
\<close>

definition watchSlugChanges :: "Env \<Rightarrow> Props \<Rightarrow> State \<Rightarrow> State" where
  "watchSlugChanges env p s =
     (case checkUniqueSlug env p s of
        Inl e \<Rightarrow> emit [UnhandledRejection e] s
      | Inr isUnique \<Rightarrow>
          if \<not> isUnique
          then s\<lparr>slugError := Some ''Already taken. Please select another slug.''\<rparr>
          else s\<lparr>slugError := None\<rparr>)"

text \<open>
  The effect of lines 112 to 116, run when \<^verbatim>\<open>watchTitle\<close> has changed:
  \<^verbatim>\<open>if (!defaultValues?.title) form.setValue("slug", slugify(watchTitle))\<close>.
\<close>

definition titleEffect :: "Env \<Rightarrow> Props \<Rightarrow> State \<Rightarrow> State" where
  "titleEffect env p s =
     (if \<not> truthy (map_option title (defaultValues p))
      then s\<lparr>form := (form s)\<lparr>slug := slugify env (title (form s))\<rparr>\<rparr>
      else s)"

text \<open>
  Modelled from the spec: the hook \<^verbatim>\<open>useDebounce\<close> is not among the sources. The
  debounced slug starts as the slug of the first render and follows the slug of the form
  once the input has settled for the delay (1000 ms); time itself is not modelled, the
  settling is the event \<open>debounceSettled\<close> below.

  At mount both effects run once: the title effect, and the slug check on the debounced
  slug of the first render. The props are those of the mount throughout.
\<close>

definition mount :: "Env \<Rightarrow> Props \<Rightarrow> State" where
  "mount env p =
     (let s0 = \<lparr> form = useFormDefaults p, slugError = None, isSubmitted = False,
                 debouncedSlug = slug (useFormDefaults p), trace = [] \<rparr>
      in watchSlugChanges env p (titleEffect env p s0))"

text \<open>
  Modelled from the spec: the settling of \<^verbatim>\<open>useDebounce\<close>, which is not among the
  sources. The debounced slug catches up with the slug of the form; when it has changed,
  \<^verbatim>\<open>checkUniqueSlug\<close> is a new callback and the effect of lines 96 to 110 runs.
\<close>

definition debounceSettled :: "Env \<Rightarrow> Props \<Rightarrow> State \<Rightarrow> State" where
  "debounceSettled env p s =
     (if debouncedSlug s = slug (form s) then s
      else watchSlugChanges env p (s\<lparr>debouncedSlug := slug (form s)\<rparr>))"

text \<open>
  The inputs of the title, the slug and the description write their field. The title
  effect has \<^verbatim>\<open>watchTitle\<close> among its dependencies and runs when the title has changed.

  \<^verbatim>\<open>useForm\<close> is called without a mode, so the form library validates on submit and,
  once a submission has been handled, again on every change of a field: the error of
  the changed field becomes what the resolver says about it. Only the error of the slug
  field is part of the state, so only the input of the slug writes it. The title effect
  writes the slug with \<^verbatim>\<open>setValue\<close> and no option, which does not validate.
\<close>

definition onTitleInput :: "Env \<Rightarrow> Props \<Rightarrow> string \<Rightarrow> State \<Rightarrow> State" where
  "onTitleInput env p t s =
     (let s' = s\<lparr>form := (form s)\<lparr>title := t\<rparr>\<rparr>
      in if t \<noteq> title (form s) then titleEffect env p s' else s')"

definition onSlugInput :: "Env \<Rightarrow> string \<Rightarrow> State \<Rightarrow> State" where
  "onSlugInput env v s =
     (let s' = s\<lparr>form := (form s)\<lparr>slug := v\<rparr>\<rparr>
      in if isSubmitted s
         then s'\<lparr>slugError := (case resolver env (form s') of Inl err \<Rightarrow> err | Inr vs \<Rightarrow> None)\<rparr>
         else s')"

definition onDescriptionInput :: "string \<Rightarrow> State \<Rightarrow> State" where
  "onDescriptionInput v s = s\<lparr>form := (form s)\<lparr>description := Some v\<rparr>\<rparr>"

text \<open>\<^verbatim>\<open>onCheckedChange\<close> of the checkbox of a monitor (lines 299 to 310).\<close>

definition onCheckedChange :: "Monitor \<Rightarrow> bool \<Rightarrow> State \<Rightarrow> State" where
  "onCheckedChange item checked s =
     s\<lparr>form := (form s)\<lparr>monitors :=
         (if checked
          then Some ((case monitors (form s) of None \<Rightarrow> [] | Some xs \<Rightarrow> xs) @ [monitor_id item])
          else map_option (filter (\<lambda>v. v \<noteq> monitor_id item)) (monitors (form s)))\<rparr>\<rparr>"

subsection \<open>Submission\<close>

text \<open>What follows a mutation that resolved (lines 134 to 138).\<close>

definition afterSaved :: "Props \<Rightarrow> effect list" where
  "afterSaved p =
     Toast ''saved'' #
     (case nextUrl p of None \<Rightarrow> [] | Some u \<Rightarrow> if u = [] then [] else [RouterPush u]) @
     [RouterRefresh]"

text \<open>\<^verbatim>\<open>page?.id || null\<close> (line 131).\<close>

definition newPageId :: "Schema option \<Rightarrow> int option" where
  "newPageId page =
     (case Option.bind page id' of None \<Rightarrow> None | Some n \<Rightarrow> if n = 0 then None else Some n)"

text \<open>
  \<^verbatim>\<open>onSubmit\<close> (lines 118 to 143). The body of the transition is one \<^verbatim>\<open>try\<close>; a
  mutation that rejects ends it in the \<^verbatim>\<open>catch\<close>, which shows the toast "error".
  The call of a mutation is recorded whether it resolves or rejects. The object handed
  to \<^verbatim>\<open>createPage\<close> is \<^verbatim>\<open>{...props, workspaceSlug}\<close>: the props of the form with the
  \<^verbatim>\<open>workspaceSlug\<close> of the component written over theirs.
\<close>

definition onSubmit :: "Env \<Rightarrow> Props \<Rightarrow> Schema \<Rightarrow> State \<Rightarrow> State" where
  "onSubmit env p props s =
     (case defaultValues p of
        Some dv \<Rightarrow>
          (case updatePage env props of
             Inl e \<Rightarrow> emit [UpdatePage props, Toast ''error''] s
           | Inr u \<Rightarrow> emit (UpdatePage props # afterSaved p) s)
      | None \<Rightarrow>
          (let input = props\<lparr>workspaceSlug := Some (props_workspaceSlug p)\<rparr> in
           case createPage env input of
             Inl e \<Rightarrow> emit [CreatePage input, Toast ''error''] s
           | Inr page \<Rightarrow>
               emit ([CreatePage input,
                      RouterReplace (''?'' @ updateSearchParams env (newPageId page))]
                     @ afterSaved p) s))"

text \<open>
  \<^verbatim>\<open>form.handleSubmit(onSubmit)\<close>: the resolver validates the values of the form, its
  errors replace the errors the form held (so an error set with \<^verbatim>\<open>setError\<close> is gone
  unless the resolver has one for the same field), and \<^verbatim>\<open>onSubmit\<close> is called with the
  parsed values of a valid draft only. Either way the submission counts as handled.
\<close>

definition handleSubmit :: "Env \<Rightarrow> Props \<Rightarrow> State \<Rightarrow> State" where
  "handleSubmit env p s =
     (case resolver env (form s) of
        Inl err \<Rightarrow> s\<lparr>slugError := err, isSubmitted := True\<rparr>
      | Inr props \<Rightarrow> onSubmit env p props (s\<lparr>slugError := None, isSubmitted := True\<rparr>))"

text \<open>
  The \<^verbatim>\<open>onSubmit\<close> handler of the \<^verbatim>\<open>form\<close> element (lines 164 to 175). The
  uniqueness check is awaited outside any \<^verbatim>\<open>try\<close>: when it rejects, the handler ends
  there.
\<close>

definition formOnSubmit :: "Env \<Rightarrow> Props \<Rightarrow> State \<Rightarrow> State" where
  "formOnSubmit env p s =
     (let s1 = emit [PreventDefault] s in
      case checkUniqueSlug env p s1 of
        Inl e \<Rightarrow> emit [UnhandledRejection e] s1
      | Inr isUnique \<Rightarrow>
          if \<not> isUnique then emit [Toast ''unique-slug''] s1
          else handleSubmit env p s1)"

subsection \<open>The icon\<close>

text \<open>
  \<^verbatim>\<open>handleChange\<close> (lines 145 to 159). Neither \<^verbatim>\<open>fetch\<close> nor \<^verbatim>\<open>response.json()\<close> is
  in a \<^verbatim>\<open>try\<close>: a rejection of either is unhandled and the icon is not written.
\<close>

definition handleChange :: "Env \<Rightarrow> File list option \<Rightarrow> State \<Rightarrow> State" where
  "handleChange env file s =
     (case file of
        None \<Rightarrow> s
      | Some [] \<Rightarrow> s
      | Some (f # fs) \<Rightarrow>
          (let request = ''/api/upload?filename='' @ file_name f;
               s1 = emit [ConsoleLogFile f, Fetch request f] s in
           case fetch env request f of
             Inl e \<Rightarrow> emit [UnhandledRejection e] s1
           | Inr response \<Rightarrow>
               (case response of
                  Inl e \<Rightarrow> emit [UnhandledRejection e] s1
                | Inr newblob \<Rightarrow>
                    (emit [ConsoleLogString (blob_url newblob)] s1)
                      \<lparr>form := (form s)\<lparr>icon := Some (blob_url newblob)\<rparr>\<rparr>)))"

text \<open>The \<^verbatim>\<open>onClick\<close> of the button "Remove" (lines 259 to 261).\<close>

definition removeIcon :: "State \<Rightarrow> State" where
  "removeIcon s = s\<lparr>form := (form s)\<lparr>icon := Some []\<rparr>\<rparr>"

text \<open>
  What the icon field renders (lines 239 to 266): the file input when the value is
  falsy, the preview with the button "Remove" when it is truthy.
\<close>

datatype iconControl = FilePicker | Preview string

definition renderIcon :: "Schema \<Rightarrow> iconControl list" where
  "renderIcon v =
     (if \<not> truthy (icon v) then [FilePicker] else []) @
     (case icon v of None \<Rightarrow> [] | Some src \<Rightarrow> if src = [] then [] else [Preview src])"

subsection \<open>Events\<close>

text \<open>
  The button "Remove" (lines 257 to 264) stands inside the \<^verbatim>\<open>form\<close> element and has
  no \<^verbatim>\<open>type\<close>, like the button "Confirm" (line 329) that submits the form: a click
  runs its \<^verbatim>\<open>onClick\<close> and then submits the form.
\<close>

datatype event =
    TitleInput string
  | SlugInput string
  | DescriptionInput string
  | MonitorChecked Monitor bool
  | FileSelected "File list option"
  | RemoveClicked
  | DebounceSettled
  | Submitted

fun step :: "Env \<Rightarrow> Props \<Rightarrow> State \<Rightarrow> event \<Rightarrow> State" where
  "step env p s (TitleInput t) = onTitleInput env p t s"
| "step env p s (SlugInput v) = onSlugInput env v s"
| "step env p s (DescriptionInput v) = onDescriptionInput v s"
| "step env p s (MonitorChecked item checked) = onCheckedChange item checked s"
| "step env p s (FileSelected file) = handleChange env file s"
| "step env p s RemoveClicked = formOnSubmit env p (removeIcon s)"
| "step env p s DebounceSettled = debounceSettled env p s"
| "step env p s Submitted = formOnSubmit env p s"

definition run :: "Env \<Rightarrow> Props \<Rightarrow> State \<Rightarrow> event list \<Rightarrow> State" where
  "run env p s evs = foldl (step env p) s evs"

text \<open>The calls a handler has added to the trace of the state it started from.\<close>

definition added :: "State \<Rightarrow> State \<Rightarrow> effect list" where
  "added s s' = drop (length (trace s)) (trace s')"

fun isCreatePage :: "effect \<Rightarrow> bool" where
  "isCreatePage (CreatePage x) = True"
| "isCreatePage e = False"

fun isUpdatePage :: "effect \<Rightarrow> bool" where
  "isUpdatePage (UpdatePage x) = True"
| "isUpdatePage e = False"

fun isRouterReplace :: "effect \<Rightarrow> bool" where
  "isRouterReplace (RouterReplace x) = True"
| "isRouterReplace e = False"

fun isRouterPush :: "effect \<Rightarrow> bool" where
  "isRouterPush (RouterPush x) = True"
| "isRouterPush e = False"

fun isSlugInput :: "event \<Rightarrow> bool" where
  "isSlugInput (SlugInput v) = True"
| "isSlugInput ev = False"

section \<open>Concrete collaborators, props and states\<close>

text \<open>
  Inputs at which the theorems below are instantiated: a remote for which every slug
  but "taken" is unique and whose mutations resolve, a lowering of the letters A to Z
  and of the capital E with acute accent (code 0xC9, lowered to 0xE9), a slugify that
  lowers letters and writes a hyphen for a space, a resolver that accepts every draft,
  and an upload that answers the URL of the spec's example.
\<close>

definition lowerChar :: "char \<Rightarrow> char" where
  "lowerChar c =
     (case map_of (zip (CHR 0xC9 # ''ABCDEFGHIJKLMNOPQRSTUVWXYZ'')
                       (CHR 0xE9 # ''abcdefghijklmnopqrstuvwxyz'')) c of
        None \<Rightarrow> c
      | Some d \<Rightarrow> d)"

definition demoLowerCase :: "string \<Rightarrow> string" where
  "demoLowerCase v = map lowerChar v"

definition demoSlugify :: "string \<Rightarrow> string" where
  "demoSlugify t = map (\<lambda>c. if c = CHR '' '' then CHR ''-'' else lowerChar c) t"

definition demoEnv :: Env where
  "demoEnv =
     \<lparr> getSlugUniqueness = (\<lambda>v. Inr (v \<noteq> ''taken'')),
       updatePage = (\<lambda>x. Inr ()),
       createPage = (\<lambda>x. Inr (Some (x\<lparr>id' := Some 7\<rparr>))),
       slugify = demoSlugify,
       toLowerCase = demoLowerCase,
       updateSearchParams = (\<lambda>i. case i of None \<Rightarrow> [] | Some n \<Rightarrow> ''id=new''),
       resolver = Inr,
       fetch = (\<lambda>request f. Inr (Inr \<lparr>blob_url = ''https://x/y.png''\<rparr>)) \<rparr>"

definition demoPage :: Schema where
  "demoPage =
     \<lparr> title = ''Acme Status'', slug = ''acme'', description = Some ''All systems'',
       workspaceId = Some 1, id' = Some 3, monitors = Some [5], customDomain = None,
       workspaceSlug = None, icon = None \<rparr>"

definition createProps :: Props where
  "createProps =
     \<lparr> defaultValues = None, props_workspaceSlug = ''team'', allMonitors = None,
       checkAllMonitors = None, nextUrl = None \<rparr>"

definition editProps :: Props where
  "editProps =
     \<lparr> defaultValues = Some demoPage, props_workspaceSlug = ''team'',
       allMonitors =
         Some [\<lparr>monitor_id = 5, monitor_name = ''api'', monitor_url = ''https://a''\<rparr>,
               \<lparr>monitor_id = 6, monitor_name = ''web'', monitor_url = ''https://b''\<rparr>],
       checkAllMonitors = Some True, nextUrl = Some ''/next'' \<rparr>"

text \<open>A state in which the slug field holds \<open>current\<close> and the debounced slug is \<open>debounced\<close>.\<close>

definition typedState :: "string \<Rightarrow> string \<Rightarrow> State" where
  "typedState current debounced =
     \<lparr> form = demoPage\<lparr>slug := current\<rparr>, slugError = Some ''stale'', isSubmitted = False,
       debouncedSlug = debounced, trace = [] \<rparr>"

text \<open>Props of an edit whose original slug is \<open>original\<close>, and a remote that refuses every slug.\<close>

definition editPropsOf :: "string \<Rightarrow> Props" where
  "editPropsOf original = editProps\<lparr>defaultValues := Some (demoPage\<lparr>slug := original\<rparr>)\<rparr>"

definition refusingEnv :: Env where
  "refusingEnv = demoEnv\<lparr>getSlugUniqueness := (\<lambda>v. Inr False)\<rparr>"

section \<open>Frame lemmas\<close>

lemma form_emit [simp]: "form (emit es s) = form s"
  by (simp add: emit_def)

lemma slugError_emit [simp]: "slugError (emit es s) = slugError s"
  by (simp add: emit_def)

lemma debouncedSlug_emit [simp]: "debouncedSlug (emit es s) = debouncedSlug s"
  by (simp add: emit_def)

lemma trace_emit [simp]: "trace (emit es s) = trace s @ es"
  by (simp add: emit_def)

lemma emit_emit: "emit es (emit es' s) = emit (es' @ es) s"
  by (simp add: emit_def)

lemma added_emit [simp]: "added s (emit es s) = es"
  by (simp add: added_def)

lemma added_emit_emit [simp]: "added s (emit es (emit es' s)) = es' @ es"
  by (simp add: added_def)

lemma checkUniqueSlug_emit [simp]: "checkUniqueSlug env p (emit es s) = checkUniqueSlug env p s"
  by (simp add: checkUniqueSlug_def split: sum.splits)

lemma checkUniqueSlug_form: "checkUniqueSlug env p (s\<lparr>form := v\<rparr>) = checkUniqueSlug env p s"
  by (simp add: checkUniqueSlug_def split: sum.splits)

lemma form_watchSlugChanges [simp]: "form (watchSlugChanges env p s) = form s"
  by (simp add: watchSlugChanges_def split: sum.splits)

lemma monitors_titleEffect [simp]: "monitors (form (titleEffect env p s)) = monitors (form s)"
  by (simp add: titleEffect_def)

lemma titleEffect_edit_mode:
  "truthy (map_option title (defaultValues p)) \<Longrightarrow> titleEffect env p s = s"
  by (simp add: titleEffect_def)

lemma filter_isCreatePage_afterSaved [simp]: "filter isCreatePage (afterSaved p) = []"
  by (simp add: afterSaved_def split: option.splits)

lemma filter_isUpdatePage_afterSaved [simp]: "filter isUpdatePage (afterSaved p) = []"
  by (simp add: afterSaved_def split: option.splits)

lemma filter_isRouterReplace_afterSaved [simp]: "filter isRouterReplace (afterSaved p) = []"
  by (simp add: afterSaved_def split: option.splits)

section \<open>The initial selection of monitors\<close>

text \<open>
  C10. When \<^verbatim>\<open>checkAllMonitors\<close> is true and \<^verbatim>\<open>allMonitors\<close> is provided, the
  \<^verbatim>\<open>monitors\<close> field of the mounted form is the list of the ids of all monitors,
  whatever \<^verbatim>\<open>defaultValues.monitors\<close> holds; otherwise it is
  \<^verbatim>\<open>defaultValues.monitors\<close>, or the empty list when there are no default values or
  they have no monitors.
\<close>

theorem initial_monitors:
  "(checkAllMonitors p = Some True \<and> allMonitors p = Some ms \<longrightarrow>
      monitors (form (mount env p)) = Some (map monitor_id ms)) \<and>
   (\<not> (checkAllMonitors p = Some True \<and> allMonitors p \<noteq> None) \<longrightarrow>
      monitors (form (mount env p)) =
        Some (case Option.bind (defaultValues p) monitors of None \<Rightarrow> [] | Some xs \<Rightarrow> xs))"
  by (auto simp: mount_def useFormDefaults_def Let_def split: option.splits bool.splits)

text \<open>
  With both monitors pre-selected the default \<open>[5]\<close> is overridden; without
  \<^verbatim>\<open>checkAllMonitors\<close> the default is kept; without default values the list is empty.
\<close>

theorem initial_monitors_witness:
  "monitors (form (mount demoEnv editProps)) = Some [5, 6] \<and>
   monitors (form (mount demoEnv (editProps\<lparr>checkAllMonitors := None\<rparr>))) = Some [5] \<and>
   monitors (form (mount demoEnv createProps)) = Some []"
  using initial_monitors [where p = editProps and env = demoEnv
      and ms = "[\<lparr>monitor_id = 5, monitor_name = ''api'', monitor_url = ''https://a''\<rparr>,
                 \<lparr>monitor_id = 6, monitor_name = ''web'', monitor_url = ''https://b''\<rparr>]"]
    initial_monitors [where p = "editProps\<lparr>checkAllMonitors := None\<rparr>" and env = demoEnv]
    initial_monitors [where p = createProps and env = demoEnv]
  by (simp add: editProps_def createProps_def demoPage_def)

section \<open>The uniqueness check\<close>

text \<open>
  C3. When the checked slug equals the slug of the original draft
  (\<^verbatim>\<open>defaultValues.slug\<close>) up to the case of its letters, that is, when
  \<^verbatim>\<open>toLowerCase\<close> gives the same string for both, \<^verbatim>\<open>checkUniqueSlug\<close> answers true,
  whatever boolean the remote \<^verbatim>\<open>getSlugUniqueness\<close> returned. This holds for every
  lowering function, so for the one of the runtime and for letters outside A to Z.
\<close>

theorem self_match_exemption:
  assumes "defaultValues p = Some dv"
    and "toLowerCase env (debouncedSlug s) = toLowerCase env (slug dv)"
    and "getSlugUniqueness env (debouncedSlug s) = Inr remote"
  shows "checkUniqueSlug env p s = Inr True"
  using assms by (simp add: checkUniqueSlug_def)

text \<open>
  The slug "ACME" against the original "acme", and a capital E with acute accent against
  the small one, each with a remote that refuses every slug.
\<close>

theorem self_match_exemption_witness:
  "toLowerCase refusingEnv ''ACME'' = toLowerCase refusingEnv ''acme'' \<and>
   checkUniqueSlug refusingEnv (editPropsOf ''acme'') (typedState ''ACME'' ''ACME'') =
     Inr True \<and>
   toLowerCase refusingEnv [CHR 0xC9] = toLowerCase refusingEnv [CHR 0xE9] \<and>
   checkUniqueSlug refusingEnv (editPropsOf [CHR 0xE9]) (typedState [CHR 0xC9] [CHR 0xC9]) =
     Inr True"
  using self_match_exemption [where p = "editPropsOf ''acme''"
      and dv = "demoPage\<lparr>slug := ''acme''\<rparr>"
      and s = "typedState ''ACME'' ''ACME''" and env = refusingEnv and remote = False]
    self_match_exemption [where p = "editPropsOf [CHR 0xE9]"
      and dv = "demoPage\<lparr>slug := [CHR 0xE9]\<rparr>"
      and s = "typedState [CHR 0xC9] [CHR 0xC9]" and env = refusingEnv and remote = False]
  by (simp add: editPropsOf_def refusingEnv_def editProps_def demoPage_def demoEnv_def
      typedState_def demoLowerCase_def lowerChar_def)

text \<open>
  C6. The effect on the debounced slug: when the remote reports the debounced slug as
  not unique and it differs, lowered, from the original slug, the error of the slug field
  becomes "Already taken. Please select another slug."; when the check passes, that is,
  when the remote reports the slug as unique or the slug equals the original one up to
  the case of its letters, the error of the slug field is cleared. Nothing else of the
  state changes. The lowering is that of the runtime, whatever it is.
\<close>

theorem slug_error_follows_check:
  "(getSlugUniqueness env (debouncedSlug s) = Inr False \<and>
    Some (toLowerCase env (debouncedSlug s)) \<noteq>
      map_option (\<lambda>dv. toLowerCase env (slug dv)) (defaultValues p) \<longrightarrow>
      watchSlugChanges env p s =
        s\<lparr>slugError := Some ''Already taken. Please select another slug.''\<rparr>) \<and>
   (getSlugUniqueness env (debouncedSlug s) = Inr remote \<and>
    (remote \<or>
     Some (toLowerCase env (debouncedSlug s)) =
       map_option (\<lambda>dv. toLowerCase env (slug dv)) (defaultValues p)) \<longrightarrow>
      watchSlugChanges env p s = s\<lparr>slugError := None\<rparr>) \<and>
   (checkUniqueSlug env p s = Inr True \<longrightarrow>
      watchSlugChanges env p s = s\<lparr>slugError := None\<rparr>)"
  by (auto simp: watchSlugChanges_def checkUniqueSlug_def split: sum.splits)

text \<open>
  A taken slug that is not the original one gets the error; a free slug, and the
  original slug typed with a capital E with acute accent under a remote that refuses it,
  have the error cleared.
\<close>

theorem slug_error_follows_check_witness:
  "slugError (watchSlugChanges demoEnv editProps (typedState ''taken'' ''taken'')) =
     Some ''Already taken. Please select another slug.'' \<and>
   slugError (watchSlugChanges demoEnv editProps (typedState ''free'' ''free'')) = None \<and>
   slugError (watchSlugChanges refusingEnv (editPropsOf [CHR 0xE9])
     (typedState [CHR 0xC9] [CHR 0xC9])) = None"
  using slug_error_follows_check [where env = demoEnv and p = editProps
      and s = "typedState ''taken'' ''taken''"]
    slug_error_follows_check [where env = demoEnv and p = editProps
      and s = "typedState ''free'' ''free''" and remote = True]
    slug_error_follows_check [where env = refusingEnv and p = "editPropsOf [CHR 0xE9]"
      and s = "typedState [CHR 0xC9] [CHR 0xC9]" and remote = False]
  by (simp add: editPropsOf_def refusingEnv_def editProps_def demoPage_def demoEnv_def
      typedState_def checkUniqueSlug_def demoLowerCase_def lowerChar_def)

section \<open>The slug derived from the title\<close>

text \<open>
  C4. When the component was mounted without a title (no \<^verbatim>\<open>defaultValues\<close>, or an empty
  \<^verbatim>\<open>defaultValues.title\<close>), a change of the title to \<open>t\<close> leaves the slug field at
  \<^verbatim>\<open>slugify(t)\<close>. (The effect depends on \<^verbatim>\<open>watchTitle\<close>: it runs when the title has
  changed, which is what an input event of the title field does.)
\<close>

theorem title_derives_slug:
  assumes "\<not> truthy (map_option title (defaultValues p))"
    and "t \<noteq> title (form s)"
  shows "title (form (onTitleInput env p t s)) = t \<and>
         slug (form (onTitleInput env p t s)) = slugify env t"
  using assms by (simp add: onTitleInput_def titleEffect_def Let_def)

theorem title_derives_slug_witness:
  "\<not> truthy (map_option title (defaultValues createProps)) \<and>
   slug (form (onTitleInput demoEnv createProps ''My Page'' (typedState ''x'' ''x''))) =
     ''my-page''"
  using title_derives_slug [where p = createProps and t = "''My Page''"
      and s = "typedState ''x'' ''x''" and env = demoEnv]
  by (simp add: createProps_def demoPage_def demoEnv_def typedState_def truthy_def
      demoSlugify_def lowerChar_def)

lemma slug_onSubmit: "slug (form (onSubmit env p props s)) = slug (form s)"
  by (simp add: onSubmit_def Let_def split: option.splits sum.splits)

lemma slug_formOnSubmit: "slug (form (formOnSubmit env p s)) = slug (form s)"
  by (simp add: formOnSubmit_def handleSubmit_def slug_onSubmit Let_def
      split: option.splits sum.splits)

lemma slug_handleChange: "slug (form (handleChange env files s)) = slug (form s)"
  by (simp add: handleChange_def Let_def split: option.splits sum.splits list.splits)

lemma slug_debounceSettled: "slug (form (debounceSettled env p s)) = slug (form s)"
  by (simp add: debounceSettled_def)

text \<open>In edit mode no event but an input of the slug field itself writes the slug.\<close>

lemma slug_step:
  assumes "truthy (map_option title (defaultValues p))" and "\<not> isSlugInput ev"
  shows "slug (form (step env p s ev)) = slug (form s)"
proof (cases ev)
  case (TitleInput t)
  then show ?thesis
    using assms(1) by (simp add: onTitleInput_def Let_def titleEffect_edit_mode)
next
  case (SlugInput v)
  then show ?thesis using assms(2) by simp
next
  case (DescriptionInput v)
  then show ?thesis by (simp add: onDescriptionInput_def)
next
  case (MonitorChecked item checked)
  then show ?thesis by (simp add: onCheckedChange_def)
next
  case (FileSelected files)
  then show ?thesis by (simp add: slug_handleChange)
next
  case RemoveClicked
  then show ?thesis by (simp add: slug_formOnSubmit removeIcon_def)
next
  case DebounceSettled
  then show ?thesis by (simp add: slug_debounceSettled)
next
  case Submitted
  then show ?thesis by (simp add: slug_formOnSubmit)
qed

text \<open>
  C5. When the draft was loaded with a non-empty \<^verbatim>\<open>defaultValues.title\<close>, the title
  effect changes nothing, and over any sequence of events that holds no input of the slug
  field itself (title edits, debounce, uploads, submissions, in any order) the slug field
  keeps its value.
\<close>

theorem slug_kept_in_edit_mode:
  assumes "truthy (map_option title (defaultValues p))"
    and "\<forall>ev \<in> set evs. \<not> isSlugInput ev"
  shows "titleEffect env p s = s \<and> slug (form (run env p s evs)) = slug (form s)"
proof -
  have "slug (form (foldl (step env p) s evs)) = slug (form s)"
    using assms(2)
  proof (induction evs arbitrary: s)
    case Nil
    then show ?case by simp
  next
    case (Cons ev evs)
    then have "slug (form (foldl (step env p) (step env p s ev) evs)) =
        slug (form (step env p s ev))"
      by simp
    also have "\<dots> = slug (form s)"
      using Cons.prems assms(1) by (simp add: slug_step)
    finally show ?case by simp
  qed
  then show ?thesis
    using assms(1) by (simp add: run_def titleEffect_edit_mode)
qed

theorem slug_kept_in_edit_mode_witness:
  "truthy (map_option title (defaultValues editProps)) \<and>
   title (form (run demoEnv editProps (typedState ''acme'' ''acme'')
      [TitleInput ''Acme'', TitleInput ''Acme Inc'', DebounceSettled, Submitted,
       TitleInput ''Other''])) = ''Other'' \<and>
   slug (form (run demoEnv editProps (typedState ''acme'' ''acme'')
      [TitleInput ''Acme'', TitleInput ''Acme Inc'', DebounceSettled, Submitted,
       TitleInput ''Other''])) = ''acme''"
  using slug_kept_in_edit_mode [where p = editProps and env = demoEnv
      and s = "typedState ''acme'' ''acme''"
      and evs = "[TitleInput ''Acme'', TitleInput ''Acme Inc'', DebounceSettled, Submitted,
                  TitleInput ''Other'']"]
  by (simp add: editProps_def demoPage_def typedState_def truthy_def run_def
      onTitleInput_def titleEffect_def debounceSettled_def formOnSubmit_def
      handleSubmit_def onSubmit_def checkUniqueSlug_def demoEnv_def Let_def)

section \<open>Submission\<close>

lemma formOnSubmit_valid:
  assumes "checkUniqueSlug env p s = Inr True" and "resolver env (form s) = Inr props"
  shows "formOnSubmit env p s =
    onSubmit env p props ((emit [PreventDefault] s)\<lparr>slugError := None, isSubmitted := True\<rparr>)"
  using assms by (simp add: formOnSubmit_def handleSubmit_def Let_def)

lemma added_emit_handled [simp]:
  "added s (emit es ((emit es' s)\<lparr>slugError := x, isSubmitted := y\<rparr>)) = es' @ es"
  by (simp add: added_def emit_def)

lemma formOnSubmit_not_unique:
  assumes "checkUniqueSlug env p s = Inr False"
  shows "formOnSubmit env p s = emit [PreventDefault, Toast ''unique-slug''] s"
  using assms by (simp add: formOnSubmit_def Let_def emit_emit)

text \<open>
  C1, as the code has it. A submission of a draft that the resolver accepts (complete
  and valid) and whose debounced slug passes the uniqueness check of the submit handler
  (the remote reports the debounced slug as unique, or it is the original slug up to the
  case of its letters): without \<^verbatim>\<open>defaultValues\<close> it calls \<^verbatim>\<open>createPage\<close> exactly
  once, with the parsed values and the \<^verbatim>\<open>workspaceSlug\<close> of the props, and never
  \<^verbatim>\<open>updatePage\<close>; with \<^verbatim>\<open>defaultValues\<close> it calls \<^verbatim>\<open>updatePage\<close> exactly once,
  with the parsed values, and never \<^verbatim>\<open>createPage\<close>. Once the input of the slug has
  settled the debounced slug is the slug of the draft.
\<close>

theorem submit_calls_one_mutation:
  assumes "checkUniqueSlug env p s = Inr True"
    and "resolver env (form s) = Inr props"
  shows "(defaultValues p = None \<longrightarrow>
            filter isCreatePage (added s (formOnSubmit env p s)) =
              [CreatePage (props\<lparr>workspaceSlug := Some (props_workspaceSlug p)\<rparr>)] \<and>
            filter isUpdatePage (added s (formOnSubmit env p s)) = []) \<and>
         (defaultValues p \<noteq> None \<longrightarrow>
            filter isUpdatePage (added s (formOnSubmit env p s)) = [UpdatePage props] \<and>
            filter isCreatePage (added s (formOnSubmit env p s)) = [])"
  by (auto simp: formOnSubmit_valid [OF assms] onSubmit_def Let_def split: sum.splits)

theorem submit_calls_one_mutation_witness:
  "filter isCreatePage (added (typedState ''free'' ''free'')
      (formOnSubmit demoEnv createProps (typedState ''free'' ''free''))) =
     [CreatePage (demoPage\<lparr>slug := ''free'', workspaceSlug := Some ''team''\<rparr>)] \<and>
   filter isUpdatePage (added (typedState ''free'' ''free'')
      (formOnSubmit demoEnv createProps (typedState ''free'' ''free''))) = [] \<and>
   filter isUpdatePage (added (typedState ''free'' ''free'')
      (formOnSubmit demoEnv editProps (typedState ''free'' ''free''))) =
     [UpdatePage (demoPage\<lparr>slug := ''free''\<rparr>)] \<and>
   filter isCreatePage (added (typedState ''free'' ''free'')
      (formOnSubmit demoEnv editProps (typedState ''free'' ''free''))) = []"
  using submit_calls_one_mutation [where env = demoEnv and p = createProps
      and s = "typedState ''free'' ''free''" and props = "demoPage\<lparr>slug := ''free''\<rparr>"]
    submit_calls_one_mutation [where env = demoEnv and p = editProps
      and s = "typedState ''free'' ''free''" and props = "demoPage\<lparr>slug := ''free''\<rparr>"]
  by (simp add: checkUniqueSlug_def demoEnv_def typedState_def createProps_def editProps_def)

text \<open>
  C1, as stated, fails: what the submit handler checks is the debounced slug, not the slug
  of the draft. The form is mounted without default values; the title "Taken" is typed,
  which derives the slug "taken"; the debounce settles and the slug field gets the error;
  the slug is corrected to "free" and the form is submitted before the debounce settles
  again. The draft is one the resolver accepts and its slug is unique for the remote, yet
  the check asks about "taken": the handler shows the toast "unique-slug" and calls
  neither \<^verbatim>\<open>createPage\<close> nor \<^verbatim>\<open>updatePage\<close>.
\<close>

theorem submit_unique_slug_counterexample:
  "getSlugUniqueness demoEnv ''free'' = Inr True \<and>
   resolver demoEnv
     \<lparr> title = ''Taken'', slug = ''free'', description = Some [],
       workspaceId = Some 0, id' = Some 0, monitors = Some [], customDomain = Some [],
       workspaceSlug = Some [], icon = Some [] \<rparr> =
     Inr \<lparr> title = ''Taken'', slug = ''free'', description = Some [],
       workspaceId = Some 0, id' = Some 0, monitors = Some [], customDomain = Some [],
       workspaceSlug = Some [], icon = Some [] \<rparr> \<and>
   run demoEnv createProps (mount demoEnv createProps)
     [TitleInput ''Taken'', DebounceSettled, SlugInput ''free'', Submitted] =
   \<lparr> form =
       \<lparr> title = ''Taken'', slug = ''free'', description = Some [],
         workspaceId = Some 0, id' = Some 0, monitors = Some [], customDomain = Some [],
         workspaceSlug = Some [], icon = Some [] \<rparr>,
     slugError = Some ''Already taken. Please select another slug.'',
     isSubmitted = False,
     debouncedSlug = ''taken'',
     trace = [PreventDefault, Toast ''unique-slug''] \<rparr>"
  by (simp add: run_def mount_def useFormDefaults_def createProps_def demoEnv_def
      titleEffect_def watchSlugChanges_def checkUniqueSlug_def onTitleInput_def
      debounceSettled_def onSlugInput_def formOnSubmit_def emit_def truthy_def
      orString_def orNumber_def demoSlugify_def lowerChar_def demoLowerCase_def Let_def)

text \<open>
  C2, as the code has it. At submit time \<^verbatim>\<open>checkUniqueSlug\<close> is called at once, with no
  debounce delay, but what it asks the remote about is the debounced slug: its answer does
  not depend on the values the form holds, so not on the current slug. Whenever that
  check answers "not unique", the handler only prevents the default and shows the toast
  "unique-slug": the state is otherwise unchanged and neither mutation is called.
\<close>

theorem submit_gate_reads_debounced_slug:
  "checkUniqueSlug env p (s\<lparr>form := v\<rparr>) = checkUniqueSlug env p s \<and>
   (checkUniqueSlug env p s = Inr False \<longrightarrow>
      formOnSubmit env p s = emit [PreventDefault, Toast ''unique-slug''] s \<and>
      filter isCreatePage (added s (formOnSubmit env p s)) = [] \<and>
      filter isUpdatePage (added s (formOnSubmit env p s)) = [])"
  by (simp add: checkUniqueSlug_form formOnSubmit_not_unique)

theorem submit_gate_reads_debounced_slug_witness:
  "checkUniqueSlug demoEnv createProps (typedState ''free'' ''taken'') = Inr False \<and>
   added (typedState ''free'' ''taken'')
     (formOnSubmit demoEnv createProps (typedState ''free'' ''taken'')) =
     [PreventDefault, Toast ''unique-slug'']"
  using submit_gate_reads_debounced_slug [where env = demoEnv and p = createProps
      and s = "typedState ''free'' ''taken''" and v = demoPage]
  by (simp add: checkUniqueSlug_def demoEnv_def typedState_def createProps_def)

text \<open>
  C2, as stated, fails: the check at submit time is not on the current slug. The form is
  mounted without default values; the title "My Page" is typed, which derives the slug
  "my-page"; the debounce settles; the slug "taken" is typed and the form is submitted
  before the debounce settles again. The remote reports "taken" as not unique, yet the
  check asks about "my-page" and passes: no toast "unique-slug" is shown and
  \<^verbatim>\<open>createPage\<close> is called with the slug "taken".
\<close>

theorem submit_gate_current_slug_counterexample:
  "getSlugUniqueness demoEnv ''taken'' = Inr False \<and>
   run demoEnv createProps (mount demoEnv createProps)
     [TitleInput ''My Page'', DebounceSettled, SlugInput ''taken'', Submitted] =
   \<lparr> form =
       \<lparr> title = ''My Page'', slug = ''taken'', description = Some [],
         workspaceId = Some 0, id' = Some 0, monitors = Some [], customDomain = Some [],
         workspaceSlug = Some [], icon = Some [] \<rparr>,
     slugError = None,
     isSubmitted = True,
     debouncedSlug = ''my-page'',
     trace =
       [PreventDefault,
        CreatePage
          \<lparr> title = ''My Page'', slug = ''taken'', description = Some [],
            workspaceId = Some 0, id' = Some 0, monitors = Some [], customDomain = Some [],
            workspaceSlug = Some ''team'', icon = Some [] \<rparr>,
        RouterReplace ''?id=new'', Toast ''saved'', RouterRefresh] \<rparr>"
  by (simp add: run_def mount_def useFormDefaults_def createProps_def demoEnv_def
      titleEffect_def watchSlugChanges_def checkUniqueSlug_def onTitleInput_def
      debounceSettled_def onSlugInput_def formOnSubmit_def handleSubmit_def onSubmit_def
      afterSaved_def newPageId_def emit_def truthy_def orString_def orNumber_def
      demoSlugify_def lowerChar_def demoLowerCase_def Let_def)

text \<open>
  C7. When the mutation that \<^verbatim>\<open>onSubmit\<close> calls (\<^verbatim>\<open>updatePage\<close> with
  \<^verbatim>\<open>defaultValues\<close>, \<^verbatim>\<open>createPage\<close> without) rejects, the handler adds the call of
  the mutation and the toast "error" to the trace and nothing else: the values of the
  form are as typed, and beside the mutation call itself the toast "error" is the only
  call made (no \<^verbatim>\<open>router.replace\<close>, no \<^verbatim>\<open>router.push\<close> to \<^verbatim>\<open>nextUrl\<close>, no
  \<^verbatim>\<open>router.refresh\<close>, no toast "saved").
\<close>

theorem mutation_failure_only_error_toast:
  assumes "case defaultValues p of
             Some dv \<Rightarrow> isl (updatePage env props)
           | None \<Rightarrow> isl (createPage env (props\<lparr>workspaceSlug := Some (props_workspaceSlug p)\<rparr>))"
  shows "onSubmit env p props s =
           emit [case defaultValues p of
                   Some dv \<Rightarrow> UpdatePage props
                 | None \<Rightarrow> CreatePage (props\<lparr>workspaceSlug := Some (props_workspaceSlug p)\<rparr>),
                 Toast ''error''] s \<and>
         form (onSubmit env p props s) = form s \<and>
         slugError (onSubmit env p props s) = slugError s \<and>
         filter (\<lambda>e. \<not> isCreatePage e \<and> \<not> isUpdatePage e) (added s (onSubmit env p props s)) =
           [Toast ''error'']"
  using assms by (auto simp: onSubmit_def Let_def isl_def split: option.splits sum.splits)

theorem mutation_failure_only_error_toast_witness:
  "added (typedState ''free'' ''free'')
     (onSubmit (demoEnv\<lparr>createPage := (\<lambda>x. Inl Rejected)\<rparr>) createProps demoPage
        (typedState ''free'' ''free'')) =
     [CreatePage (demoPage\<lparr>workspaceSlug := Some ''team''\<rparr>), Toast ''error''] \<and>
   added (typedState ''free'' ''free'')
     (onSubmit (demoEnv\<lparr>updatePage := (\<lambda>x. Inl Rejected)\<rparr>) editProps demoPage
        (typedState ''free'' ''free'')) =
     [UpdatePage demoPage, Toast ''error'']"
  using mutation_failure_only_error_toast [where p = createProps
      and env = "demoEnv\<lparr>createPage := (\<lambda>x. Inl Rejected)\<rparr>" and props = demoPage
      and s = "typedState ''free'' ''free''"]
    mutation_failure_only_error_toast [where p = editProps
      and env = "demoEnv\<lparr>updatePage := (\<lambda>x. Inl Rejected)\<rparr>" and props = demoPage
      and s = "typedState ''free'' ''free''"]
  by (simp add: demoEnv_def createProps_def editProps_def)

text \<open>
  C8. \<^verbatim>\<open>router.replace\<close> is called on the create path only, after \<^verbatim>\<open>createPage\<close> has
  resolved: with \<^verbatim>\<open>defaultValues\<close> (update) \<^verbatim>\<open>onSubmit\<close> never calls it, and neither
  does a create whose mutation rejects; a create that resolves calls it exactly once, with
  \<^verbatim>\<open>?\<close> followed by what \<^verbatim>\<open>updateSearchParams\<close> answers for the id of the created
  page. That id is \<^verbatim>\<open>page?.id || null\<close>: the id \<^verbatim>\<open>createPage\<close> returned when it is a
  non-zero number (and \<^verbatim>\<open>null\<close> when \<^verbatim>\<open>createPage\<close> resolved without a page or id). The
  navigation to \<^verbatim>\<open>nextUrl\<close> is another call, \<^verbatim>\<open>router.push\<close>.
\<close>

theorem url_replaced_only_after_create:
  "(defaultValues p = Some dv \<longrightarrow>
      filter isRouterReplace (added s (onSubmit env p props s)) = []) \<and>
   (defaultValues p = None \<and>
    createPage env (props\<lparr>workspaceSlug := Some (props_workspaceSlug p)\<rparr>) = Inl e \<longrightarrow>
      filter isRouterReplace (added s (onSubmit env p props s)) = []) \<and>
   (defaultValues p = None \<and>
    createPage env (props\<lparr>workspaceSlug := Some (props_workspaceSlug p)\<rparr>) = Inr page \<longrightarrow>
      filter isRouterReplace (added s (onSubmit env p props s)) =
        [RouterReplace (''?'' @ updateSearchParams env (newPageId page))]) \<and>
   (id' created = Some n \<and> n \<noteq> 0 \<longrightarrow> newPageId (Some created) = Some n)"
  by (auto simp: onSubmit_def Let_def newPageId_def split: sum.splits)

theorem url_replaced_only_after_create_witness:
  "filter isRouterReplace (added (typedState ''free'' ''free'')
      (onSubmit demoEnv editProps demoPage (typedState ''free'' ''free''))) = [] \<and>
   filter isRouterReplace (added (typedState ''free'' ''free'')
      (onSubmit (demoEnv\<lparr>createPage := (\<lambda>x. Inl Rejected)\<rparr>) createProps demoPage
         (typedState ''free'' ''free''))) = [] \<and>
   filter isRouterReplace (added (typedState ''free'' ''free'')
      (onSubmit demoEnv createProps demoPage (typedState ''free'' ''free''))) =
     [RouterReplace ''?id=new''] \<and>
   newPageId (Some (demoPage\<lparr>id' := Some 7\<rparr>)) = Some 7"
  using url_replaced_only_after_create [where p = editProps and dv = demoPage
      and s = "typedState ''free'' ''free''" and env = demoEnv and props = demoPage]
    url_replaced_only_after_create [where p = createProps
      and s = "typedState ''free'' ''free''" and props = demoPage and e = Rejected
      and env = "demoEnv\<lparr>createPage := (\<lambda>x. Inl Rejected)\<rparr>"
      and created = "demoPage\<lparr>id' := Some 7\<rparr>" and n = 7]
    url_replaced_only_after_create [where p = createProps
      and s = "typedState ''free'' ''free''" and props = demoPage and env = demoEnv
      and page = "Some (demoPage\<lparr>workspaceSlug := Some ''team'', id' := Some 7\<rparr>)"]
  by (simp add: demoEnv_def createProps_def editProps_def newPageId_def demoPage_def)

section \<open>The icon\<close>

text \<open>
  C9. When a file is selected and the upload answers \<^verbatim>\<open>{url: U}\<close>, the icon field
  holds exactly \<open>U\<close>, and for a URL (a non-empty \<open>U\<close>) the field renders the preview
  in place of the file picker; the button "Remove" sets the icon field to the empty
  string, and the field renders the file picker again; with no file (\<^verbatim>\<open>null\<close> or an
  empty list) \<^verbatim>\<open>handleChange\<close> returns the state it was given.
\<close>

theorem icon_upload_and_remove:
  "(fetch env (''/api/upload?filename='' @ file_name f) f = Inr (Inr newblob) \<longrightarrow>
      icon (form (handleChange env (Some (f # fs)) s)) = Some (blob_url newblob) \<and>
      (blob_url newblob \<noteq> [] \<longrightarrow>
         renderIcon (form (handleChange env (Some (f # fs)) s)) = [Preview (blob_url newblob)])) \<and>
   icon (form (removeIcon s)) = Some [] \<and>
   renderIcon (form (removeIcon s)) = [FilePicker] \<and>
   handleChange env None s = s \<and>
   handleChange env (Some []) s = s"
  by (simp add: handleChange_def removeIcon_def renderIcon_def truthy_def Let_def)

theorem icon_upload_and_remove_witness:
  "icon (form (handleChange demoEnv (Some [\<lparr>file_name = ''y.png''\<rparr>])
      (typedState ''free'' ''free''))) = Some ''https://x/y.png'' \<and>
   renderIcon (form (handleChange demoEnv (Some [\<lparr>file_name = ''y.png''\<rparr>])
      (typedState ''free'' ''free''))) = [Preview ''https://x/y.png'']"
  using icon_upload_and_remove [where env = demoEnv and f = "\<lparr>file_name = ''y.png''\<rparr>"
      and newblob = "\<lparr>blob_url = ''https://x/y.png''\<rparr>" and fs = "[]"
      and s = "typedState ''free'' ''free''"]
  by (simp add: demoEnv_def)

end
